theory Spec2Isabelle
  imports Main "HOL-Library.AList"
begin

section \<open>Values exchanged with the outside\<close>

text \<open>
  The program is \<^verbatim>\<open>tele_app.py\<close>: a registry of Telegram client objects keyed by
  their session string (\<^verbatim>\<open>TelegramClientManager\<close>) and the HTTP handlers built on it.
  Everything the program raises is a value of \<open>exn\<close>. The constructors are the exception
  classes the source names in a \<^verbatim>\<open>raise\<close> or an \<^verbatim>\<open>except\<close> clause (each standing for
  the class with its subclasses, as an \<^verbatim>\<open>except\<close> clause reads it), \<open>AttributeError\<close>
  for an attribute read on \<^verbatim>\<open>None\<close>, and \<open>OtherError\<close> for every other subclass of
  \<^verbatim>\<open>Exception\<close> the library may raise. Exceptions outside \<^verbatim>\<open>Exception\<close> (task
  cancellation, interrupts) belong to the scheduler and are not modelled; neither is
  the interleaving of requests: one call runs to its end before the next starts.
\<close>

datatype exn =
    ValueError string
  | HTTPException int string
  | SessionPasswordNeededError
  | PhoneCodeInvalidError
  | AttributeError string
  | OtherError string

datatype 'a outcome = Raise exn | Return 'a

text \<open>A response body: the dictionaries the handlers return.\<close>

datatype jvalue =
    JStr string
  | JInt int
  | JBool bool
  | JNull
  | JObj "(string \<times> jvalue) list"

type_synonym payload = "(string \<times> jvalue) list"

text \<open>The object \<^verbatim>\<open>get_me()\<close> returns, with the attributes the handlers read.\<close>

record user =
  user_id :: int
  first_name :: "string option"
  username :: "string option"
  bot :: bool

text \<open>
  A \<^verbatim>\<open>TelegramClient\<close> object: its identity (the number of client objects built
  before it) and the three constructor arguments of
  \<^verbatim>\<open>TelegramClient(session, self.app_id, self.app_hash)\<close>, the session being
  \<^verbatim>\<open>StringSession(s)\<close> for \<open>Some s\<close> and \<^verbatim>\<open>StringSession()\<close> for \<open>None\<close>.
\<close>

record tclient =
  ident :: nat
  session_arg :: "string option"
  api_id :: int
  api_hash :: string

text \<open>
  What a message is addressed to: \<^verbatim>\<open>InputPeerUser(user_id, access_hash)\<close> built by
  the handler itself, or an object handed back by \<^verbatim>\<open>client.get_entity\<close>.
\<close>

datatype entity = InputPeerUser int int | Resolved nat

text \<open>Every call into the library, with its arguments, in the order the program makes them.\<close>

datatype call =
    NewStringSession "string option"
  | NewTelegramClient tclient
  | Connect tclient
  | Start tclient string
  | SessionSave tclient
  | OnNewMessage tclient string
  | Disconnect tclient
  | SendCodeRequest tclient string bool
  | SignIn tclient string string string
  | GetMe tclient
  | IsUserAuthorized tclient
  | UploadFile tclient string
  | SendStoryRequest tclient int nat bool int
  | GetEntity tclient string
  | SendMessage tclient entity string

text \<open>
  The behaviour of what lies outside the repository: the Telethon library, Python's
  \<^verbatim>\<open>int()\<close> on a string (\<open>None\<close> is its \<^verbatim>\<open>ValueError\<close>) and \<^verbatim>\<open>str()\<close> on an
  exception. Each library call answers from its arguments and from the calls made so
  far, and may raise. The theorems hold for every such behaviour.
\<close>

record runtime =
  py_int :: "string \<Rightarrow> int option"
  py_str_exn :: "exn \<Rightarrow> string"
  string_session :: "string option \<Rightarrow> call list \<Rightarrow> unit outcome"
  telegram_client :: "tclient \<Rightarrow> call list \<Rightarrow> unit outcome"
  client_connect :: "tclient \<Rightarrow> call list \<Rightarrow> unit outcome"
  client_start :: "tclient \<Rightarrow> string \<Rightarrow> call list \<Rightarrow> unit outcome"
  session_save :: "tclient \<Rightarrow> call list \<Rightarrow> string outcome"
  client_on :: "tclient \<Rightarrow> string \<Rightarrow> call list \<Rightarrow> unit outcome"
  client_disconnect :: "tclient \<Rightarrow> call list \<Rightarrow> unit outcome"
  client_send_code_request :: "tclient \<Rightarrow> string \<Rightarrow> bool \<Rightarrow> call list \<Rightarrow> string outcome"
  client_sign_in :: "tclient \<Rightarrow> string \<Rightarrow> string \<Rightarrow> string \<Rightarrow> call list \<Rightarrow> unit outcome"
  client_get_me :: "tclient \<Rightarrow> call list \<Rightarrow> user option outcome"
  client_is_user_authorized :: "tclient \<Rightarrow> call list \<Rightarrow> bool outcome"
  client_upload_file :: "tclient \<Rightarrow> string \<Rightarrow> call list \<Rightarrow> nat outcome"
  client_send_story :: "tclient \<Rightarrow> int \<Rightarrow> nat \<Rightarrow> bool \<Rightarrow> int \<Rightarrow> call list \<Rightarrow> unit outcome"
  client_get_entity :: "tclient \<Rightarrow> string \<Rightarrow> call list \<Rightarrow> entity outcome"
  client_send_message :: "tclient \<Rightarrow> entity \<Rightarrow> string \<Rightarrow> call list \<Rightarrow> int outcome"

section \<open>The process state\<close>

text \<open>
  \<^verbatim>\<open>client_manager\<close>, the one \<^verbatim>\<open>TelegramClientManager\<close> of the process: the dictionary
  \<^verbatim>\<open>clients\<close> in insertion order (the order \<^verbatim>\<open>values()\<close> iterates in) and the two
  credentials, \<open>None\<close> until set. \<open>allocated\<close> counts the client objects built and
  \<open>trace\<close> lists the library calls made.
\<close>

record world =
  clients :: "(string \<times> tclient) list"
  app_id :: "int option"
  app_hash :: "string option"
  allocated :: nat
  trace :: "call list"

definition initial :: world where
  "initial = \<lparr>clients = [], app_id = None, app_hash = None, allocated = 0, trace = []\<rparr>"

type_synonym 'a action = "world \<Rightarrow> 'a outcome \<times> world"

definition ret :: "'a \<Rightarrow> 'a action" where
  "ret x w = (Return x, w)"

definition throw :: "exn \<Rightarrow> 'a action" where
  "throw e w = (Raise e, w)"

text \<open>Sequencing: a raised exception skips the rest; the state reached so far stays.\<close>

definition and_then :: "'a action \<Rightarrow> ('a \<Rightarrow> 'b action) \<Rightarrow> 'b action" where
  "and_then m f w = (case m w of (Raise e, w') \<Rightarrow> (Raise e, w') | (Return x, w') \<Rightarrow> f x w')"

text \<open>\<^verbatim>\<open>try: body except ...: handler\<close>.\<close>

definition try_except :: "'a action \<Rightarrow> (exn \<Rightarrow> 'a action) \<Rightarrow> 'a action" where
  "try_except body handler w =
     (case body w of (Raise e, w') \<Rightarrow> handler e w' | (Return x, w') \<Rightarrow> (Return x, w'))"

text \<open>A library call: recorded in the trace, answered from the trace before it.\<close>

definition external :: "call \<Rightarrow> (call list \<Rightarrow> 'a outcome) \<Rightarrow> 'a action" where
  "external c answer w = (answer (trace w), w\<lparr>trace := trace w @ [c]\<rparr>)"

text \<open>Python's \<^verbatim>\<open>not x\<close> for an optional integer and an optional string.\<close>

definition py_not_int :: "int option \<Rightarrow> bool" where
  "py_not_int x = (case x of None \<Rightarrow> True | Some n \<Rightarrow> n = 0)"

definition py_not_str :: "string option \<Rightarrow> bool" where
  "py_not_str x = (case x of None \<Rightarrow> True | Some s \<Rightarrow> s = [])"

section \<open>TelegramClientManager\<close>

definition get_client :: "string \<Rightarrow> tclient action" where
  "get_client session_hash w =
     (case map_of (clients w) session_hash of
        None \<Rightarrow> throw (HTTPException 400 ''Session not found'') w
      | Some client \<Rightarrow> ret client w)"

text \<open>
  \<^verbatim>\<open>add_message_handler\<close>: registers the \<^verbatim>\<open>/ping\<close> responder on the client.
\<close>

definition add_message_handler :: "runtime \<Rightarrow> tclient \<Rightarrow> unit action" where
  "add_message_handler rt client =
     external (OnNewMessage client ''/ping'') (client_on rt client ''/ping'')"

text \<open>
  \<^verbatim>\<open>TelegramClient(session, self.app_id, self.app_hash)\<close>: a new object, numbered by
  the count of objects built before it.
\<close>

definition new_telegram_client :: "string option \<Rightarrow> int \<Rightarrow> string \<Rightarrow> runtime \<Rightarrow> tclient action" where
  "new_telegram_client session i h rt w =
     (let client = \<lparr>ident = allocated w, session_arg = session, api_id = i, api_hash = h\<rparr>
      in and_then (external (NewTelegramClient client) (telegram_client rt client))
           (\<lambda>_. ret client) (w\<lparr>allocated := Suc (allocated w)\<rparr>))"

text \<open>\<^verbatim>\<open>self.clients[new_hash] = client\<close>.\<close>

definition store_client :: "string \<Rightarrow> tclient \<Rightarrow> unit action" where
  "store_client new_hash client w =
     (Return (), w\<lparr>clients := AList.update new_hash client (clients w)\<rparr>)"

text \<open>
  \<^verbatim>\<open>create_client\<close>. The argument is \<open>None\<close> for the default \<^verbatim>\<open>session_hash=None\<close>.
  The credentials are read with \<open>the\<close> only past the guard that they are set.
\<close>

definition create_client :: "runtime \<Rightarrow> string option \<Rightarrow> string action" where
  "create_client rt session_hash w =
     (if py_not_int (app_id w) \<or> py_not_str (app_hash w)
      then throw (ValueError ''API credentials not set'') w
      else if \<not> py_not_str session_hash \<and> map_of (clients w) (the session_hash) \<noteq> None
      then ret (the session_hash) w
      else
        (let session = (if \<not> py_not_str session_hash then session_hash else None) in
         and_then (external (NewStringSession session) (string_session rt session)) (\<lambda>_.
         and_then (new_telegram_client session (the (app_id w)) (the (app_hash w)) rt) (\<lambda>client.
         and_then (external (Connect client) (client_connect rt client)) (\<lambda>_.
         and_then (external (SessionSave client) (session_save rt client)) (\<lambda>new_hash.
         and_then (store_client new_hash client) (\<lambda>_.
         and_then (add_message_handler rt client) (\<lambda>_.
         ret new_hash)))))) w))"

definition create_bot_client :: "runtime \<Rightarrow> string \<Rightarrow> string action" where
  "create_bot_client rt bot_token w =
     (if py_not_int (app_id w) \<or> py_not_str (app_hash w)
      then throw (ValueError ''API credentials not set'') w
      else
         and_then (external (NewStringSession None) (string_session rt None)) (\<lambda>_.
         and_then (new_telegram_client None (the (app_id w)) (the (app_hash w)) rt) (\<lambda>client.
         and_then (external (Start client bot_token) (client_start rt client bot_token)) (\<lambda>_.
         and_then (external (SessionSave client) (session_save rt client)) (\<lambda>new_hash.
         and_then (store_client new_hash client) (\<lambda>_.
         and_then (add_message_handler rt client) (\<lambda>_.
         ret new_hash)))))) w)"

definition remove_client :: "runtime \<Rightarrow> string \<Rightarrow> unit action" where
  "remove_client rt session_hash w =
     (case map_of (clients w) session_hash of
        None \<Rightarrow> ret () w
      | Some client \<Rightarrow>
          and_then (external (Disconnect client) (client_disconnect rt client))
            (\<lambda>_ w'. (Return (), w'\<lparr>clients := AList.delete session_hash (clients w')\<rparr>)) w)"

text \<open>The loop of \<^verbatim>\<open>disconnect_all\<close> over \<^verbatim>\<open>self.clients.values()\<close>.\<close>

fun disconnect_each :: "runtime \<Rightarrow> tclient list \<Rightarrow> unit action" where
  "disconnect_each rt [] = ret ()"
| "disconnect_each rt (client # rest) =
     and_then (external (Disconnect client) (client_disconnect rt client))
       (\<lambda>_. disconnect_each rt rest)"

definition disconnect_all :: "runtime \<Rightarrow> unit action" where
  "disconnect_all rt w =
     and_then (disconnect_each rt (map snd (clients w)))
       (\<lambda>_ w'. (Return (), w'\<lparr>clients := []\<rparr>)) w"

section \<open>The handlers\<close>

text \<open>
  The handlers take the fields of their validated request bodies as arguments. The
  upload handlers, \<^verbatim>\<open>verify_2fa\<close> and \<^verbatim>\<open>join_channel\<close> are left out: nothing below
  depends on them.
\<close>

definition set_api_credentials :: "int \<Rightarrow> string \<Rightarrow> payload action" where
  "set_api_credentials i h w =
     (Return [(''message'', JStr ''API credentials set successfully'')],
      w\<lparr>app_id := Some i, app_hash := Some h\<rparr>)"

text \<open>
  Attribute reads on the result of \<^verbatim>\<open>get_me()\<close>, which is \<^verbatim>\<open>None\<close> for a client that
  is not logged in; and \<^verbatim>\<open>str\<close> of an optional string inside an f-string.
\<close>

definition getattr_user :: "(user \<Rightarrow> 'a) \<Rightarrow> string \<Rightarrow> user option \<Rightarrow> 'a action" where
  "getattr_user field name u =
     (case u of None \<Rightarrow> throw (AttributeError name) | Some v \<Rightarrow> ret (field v))"

definition py_format :: "string option \<Rightarrow> string" where
  "py_format x = (case x of None \<Rightarrow> ''None'' | Some s \<Rightarrow> s)"

definition json_opt :: "string option \<Rightarrow> jvalue" where
  "json_opt x = (case x of None \<Rightarrow> JNull | Some s \<Rightarrow> JStr s)"

definition create_session :: "runtime \<Rightarrow> string \<Rightarrow> payload action" where
  "create_session rt phone w =
     (if py_not_int (app_id w) \<or> py_not_str (app_hash w)
      then throw (HTTPException 400
             ''API credentials not set. Please call /set_api_credentials first.'') w
      else
        try_except
          (and_then (create_client rt None) (\<lambda>session_hash.
           and_then (get_client session_hash) (\<lambda>client.
           and_then (external (SendCodeRequest client phone True)
                       (client_send_code_request rt client phone True)) (\<lambda>phone_code_hash.
           ret [(''session_hash'', JStr session_hash),
                (''phone_code_hash'', JStr phone_code_hash)]))))
          (\<lambda>e. throw (HTTPException 500 (py_str_exn rt e))) w)"

definition create_bot_session :: "runtime \<Rightarrow> string \<Rightarrow> payload action" where
  "create_bot_session rt token =
     try_except
       (and_then (create_bot_client rt token) (\<lambda>session_hash.
        and_then (get_client session_hash) (\<lambda>client.
        and_then (external (GetMe client) (client_get_me rt client)) (\<lambda>bot_info.
        and_then (getattr_user user_id ''id'' bot_info) (\<lambda>i.
        and_then (getattr_user first_name ''first_name'' bot_info) (\<lambda>fn.
        and_then (getattr_user username ''username'' bot_info) (\<lambda>un.
        and_then (getattr_user bot ''bot'' bot_info) (\<lambda>b.
        ret [(''session_hash'', JStr session_hash),
             (''bot_info'', JObj [(''id'', JInt i), (''first_name'', json_opt fn),
                                  (''username'', json_opt un), (''bot'', JBool b)])]))))))))
       (\<lambda>e. throw (HTTPException 500 (py_str_exn rt e)))"

text \<open>
  \<^verbatim>\<open>verify_otp\<close>: the three \<^verbatim>\<open>except\<close> clauses in the source's order. An exception
  raised inside a clause leaves the handler; no later clause of the same \<^verbatim>\<open>try\<close>
  sees it.
\<close>

definition verify_otp :: "runtime \<Rightarrow> string \<Rightarrow> string \<Rightarrow> string \<Rightarrow> string \<Rightarrow> payload action" where
  "verify_otp rt phone code phone_code_hash hash =
     try_except
       (and_then (get_client hash) (\<lambda>client.
        and_then (external (SignIn client phone code phone_code_hash)
                    (client_sign_in rt client phone code phone_code_hash)) (\<lambda>_.
        and_then (external (GetMe client) (client_get_me rt client)) (\<lambda>u.
        and_then (getattr_user first_name ''first_name'' u) (\<lambda>fn.
        ret [(''message'', JStr (''Authenticated as '' @ py_format fn)),
             (''session_hash'', JStr hash)])))))
       (\<lambda>e. case e of
          SessionPasswordNeededError \<Rightarrow>
            ret [(''message'', JStr ''Two-step verification is enabled. Please provide the password.''),
                 (''session_hash'', JStr hash)]
        | PhoneCodeInvalidError \<Rightarrow> throw (HTTPException 401 ''Invalid code provided.'')
        | _ \<Rightarrow> throw (HTTPException 500 (py_str_exn rt e)))"

text \<open>
  \<^verbatim>\<open>send_story\<close>: the \<^verbatim>\<open>raise HTTPException(status_code=401, ...)\<close> stands inside the
  \<^verbatim>\<open>try\<close> whose only clause is \<^verbatim>\<open>except Exception\<close>.
\<close>

definition send_story :: "runtime \<Rightarrow> string \<Rightarrow> bool \<Rightarrow> int \<Rightarrow> string \<Rightarrow> payload action" where
  "send_story rt file_path spoiler ttl_seconds hash =
     try_except
       (and_then (get_client hash) (\<lambda>client.
        and_then (external (IsUserAuthorized client) (client_is_user_authorized rt client)) (\<lambda>authorized.
        if \<not> authorized
        then throw (HTTPException 401 ''Unauthorized. Please authenticate first.'')
        else
          and_then (external (GetMe client) (client_get_me rt client)) (\<lambda>me.
          and_then (getattr_user user_id ''id'' me) (\<lambda>peer.
          and_then (external (UploadFile client file_path)
                      (client_upload_file rt client file_path)) (\<lambda>file.
          and_then (external (SendStoryRequest client peer file spoiler ttl_seconds)
                      (client_send_story rt client peer file spoiler ttl_seconds)) (\<lambda>_.
          ret [(''message'', JStr ''Story sent successfully'')])))))))
       (\<lambda>e. throw (HTTPException 500 (py_str_exn rt e)))"

text \<open>
  \<^verbatim>\<open>send_message\<close>: the inner \<^verbatim>\<open>try\<close> covers \<^verbatim>\<open>int(recipient)\<close> and the
  \<^verbatim>\<open>InputPeerUser\<close> constructor; its \<^verbatim>\<open>except ValueError\<close> clause looks the recipient up.
\<close>

definition resolve_recipient :: "runtime \<Rightarrow> tclient \<Rightarrow> string \<Rightarrow> entity action" where
  "resolve_recipient rt client recipient =
     (case py_int rt recipient of
        Some recipient_id \<Rightarrow> ret (InputPeerUser recipient_id 0)
      | None \<Rightarrow> external (GetEntity client recipient) (client_get_entity rt client recipient))"

definition send_message :: "runtime \<Rightarrow> string \<Rightarrow> string \<Rightarrow> string \<Rightarrow> payload action" where
  "send_message rt session_hash recipient message =
     try_except
       (and_then (get_client session_hash) (\<lambda>client.
        and_then (resolve_recipient rt client recipient) (\<lambda>entity.
        and_then (external (SendMessage client entity message)
                    (client_send_message rt client entity message)) (\<lambda>message_id.
        ret [(''message'', JStr ''Message sent successfully''),
             (''message_id'', JInt message_id)]))))
       (\<lambda>e. case e of
          ValueError _ \<Rightarrow> throw (HTTPException 400 (py_str_exn rt e))
        | _ \<Rightarrow> throw (HTTPException 500 (py_str_exn rt e)))"

text \<open>
  The status FastAPI gives the response of a handler: 200 for a returned body, the
  \<^verbatim>\<open>status_code\<close> of an \<^verbatim>\<open>HTTPException\<close>, 500 for any other exception that leaves the
  handler.
\<close>

definition http_status :: "'a outcome \<Rightarrow> int" where
  "http_status r =
     (case r of Return _ \<Rightarrow> 200 | Raise (HTTPException code _) \<Rightarrow> code | Raise _ \<Rightarrow> 500)"

section \<open>A simulated library, for running the program\<close>

text \<open>
  One concrete behaviour of the outside, used to run the handlers on concrete requests.
  \<open>int_of_str\<close> is \<^verbatim>\<open>int(s)\<close> of Python 3.11 for strings of code points below 256:
  surrounding whitespace is dropped, one sign is allowed, the digits may be separated by
  single underscores, and more than 4300 digits (the default limit) are refused.
  \<open>str_int\<close> is \<^verbatim>\<open>str\<close> of an integer.
\<close>

definition py_isspace :: "char \<Rightarrow> bool" where
  "py_isspace c =
     (c \<in> set [CHR 0x09, CHR 0x0A, CHR 0x0B, CHR 0x0C, CHR 0x0D, CHR '' '', CHR 0x85,
               CHR 0xA0])"

definition py_strip :: "string \<Rightarrow> string" where
  "py_strip s = rev (dropWhile py_isspace (rev (dropWhile py_isspace s)))"

definition digit_of :: "char \<Rightarrow> nat option" where
  "digit_of c = map_of (zip ''0123456789'' [0, 1, 2, 3, 4, 5, 6, 7, 8, 9]) c"

fun more_digits :: "nat \<Rightarrow> string \<Rightarrow> nat option" where
  "more_digits acc [] = Some acc"
| "more_digits acc (c # cs) =
     (if c = CHR ''_'' then
        (case cs of
           [] \<Rightarrow> None
         | d # ds \<Rightarrow>
             (case digit_of d of None \<Rightarrow> None | Some v \<Rightarrow> more_digits (10 * acc + v) ds))
      else (case digit_of c of None \<Rightarrow> None | Some v \<Rightarrow> more_digits (10 * acc + v) cs))"

definition digits :: "string \<Rightarrow> nat option" where
  "digits s =
     (if 4300 < length (filter (\<lambda>c. c \<noteq> CHR ''_'') s) then None
      else
        (case s of
           [] \<Rightarrow> None
         | c # cs \<Rightarrow> (case digit_of c of None \<Rightarrow> None | Some v \<Rightarrow> more_digits v cs)))"

definition int_of_str :: "string \<Rightarrow> int option" where
  "int_of_str s =
     (case py_strip s of
        [] \<Rightarrow> None
      | c # cs \<Rightarrow>
          if c = CHR ''-'' then map_option (\<lambda>n. - int n) (digits cs)
          else if c = CHR ''+'' then map_option int (digits cs)
          else map_option int (digits (c # cs)))"

function str_nat :: "nat \<Rightarrow> string" where
  "str_nat n =
     (if n < 10 then [''0123456789'' ! n]
      else str_nat (n div 10) @ [''0123456789'' ! (n mod 10)])"
  by pat_completeness auto
termination
  by (relation "measure id") auto

definition str_int :: "int \<Rightarrow> string" where
  "str_int i = (if i < 0 then CHR ''-'' # str_nat (nat (- i)) else str_nat (nat i))"

text \<open>
  \<^verbatim>\<open>str(e)\<close>: the message of a \<^verbatim>\<open>ValueError\<close>, Starlette's
  \<^verbatim>\<open>"{status_code}: {detail}"\<close> for an \<^verbatim>\<open>HTTPException\<close>, Telethon's messages for its
  two errors, and Python's message for an attribute read on \<^verbatim>\<open>None\<close>.
\<close>

definition exn_text :: "exn \<Rightarrow> string" where
  "exn_text e =
     (case e of
        ValueError m \<Rightarrow> m
      | HTTPException code detail \<Rightarrow> str_int code @ '': '' @ detail
      | SessionPasswordNeededError \<Rightarrow>
          ''Two-steps verification is enabled and a password is required (caused by SignInRequest)''
      | PhoneCodeInvalidError \<Rightarrow>
          ''The phone code entered was invalid (caused by SignInRequest)''
      | AttributeError name \<Rightarrow>
          [CHR 0x27] @ ''NoneType'' @ [CHR 0x27] @ '' object has no attribute ''
            @ [CHR 0x27] @ name @ [CHR 0x27]
      | OtherError m \<Rightarrow> m)"

text \<open>
  In the simulation the code \<^verbatim>\<open>12345\<close> is the right one, the phone number
  \<^verbatim>\<open>+15550002222\<close> has a password set, and a client is logged in once it has signed
  in with the right code from another number.
\<close>

definition signed_in :: "tclient \<Rightarrow> call list \<Rightarrow> bool" where
  "signed_in client tr =
     list_ex (\<lambda>k. case k of
                SignIn c phone code _ \<Rightarrow>
                  c = client \<and> code = ''12345'' \<and> phone \<noteq> ''+15550002222''
              | _ \<Rightarrow> False) tr"

definition simulated :: runtime where
  "simulated =
     \<lparr>py_int = int_of_str,
      py_str_exn = exn_text,
      string_session = (\<lambda>s _. case s of
          None \<Rightarrow> Return ()
        | Some t \<Rightarrow> if take 1 t = ''1'' then Return () else Raise (ValueError ''Not a valid string'')),
      telegram_client = (\<lambda>_ _. Return ()),
      client_connect = (\<lambda>_ _. Return ()),
      client_start = (\<lambda>_ _ _. Return ()),
      session_save = (\<lambda>c _. Return (case session_arg c of
          None \<Rightarrow> ''1'' @ replicate (ident c) CHR ''A''
        | Some t \<Rightarrow> t)),
      client_on = (\<lambda>_ _ _. Return ()),
      client_disconnect = (\<lambda>_ _. Return ()),
      client_send_code_request = (\<lambda>_ _ _ _. Return ''c0de''),
      client_sign_in = (\<lambda>_ phone code _ _.
          if code \<noteq> ''12345'' then Raise PhoneCodeInvalidError
          else if phone = ''+15550002222'' then Raise SessionPasswordNeededError
          else Return ()),
      client_get_me = (\<lambda>c tr. Return (if signed_in c tr
          then Some \<lparr>user_id = 1, first_name = Some ''Ada'', username = None, bot = False\<rparr>
          else None)),
      client_is_user_authorized = (\<lambda>c tr. Return (signed_in c tr)),
      client_upload_file = (\<lambda>_ _ _. Return 0),
      client_send_story = (\<lambda>_ _ _ _ _ _. Return ()),
      client_get_entity = (\<lambda>_ name _.
          if name = ''somechannel'' then Return (Resolved 7)
          else Raise (ValueError ''No user has that username'')),
      client_send_message = (\<lambda>_ _ _ tr. Return (int (length tr)))\<rparr>"

text \<open>
  States the process reaches: after \<^verbatim>\<open>/set_api_credentials\<close> with \<^verbatim>\<open>app_id = 1\<close>, after
  one and two calls of \<^verbatim>\<open>create_client()\<close>, and after the credentials are then set
  again with \<^verbatim>\<open>app_id = 0\<close>.
\<close>

definition credentials_set :: world where
  "credentials_set = snd (set_api_credentials 1 ''x'' initial)"

definition one_session :: world where
  "one_session = snd (create_client simulated None credentials_set)"

definition two_sessions :: world where
  "two_sessions = snd (create_client simulated None one_session)"

definition credentials_cleared :: world where
  "credentials_cleared = snd (set_api_credentials 0 ''x'' one_session)"

definition client0 :: tclient where
  "client0 = \<lparr>ident = 0, session_arg = None, api_id = 1, api_hash = ''x''\<rparr>"

definition client1 :: tclient where
  "client1 = \<lparr>ident = 1, session_arg = None, api_id = 1, api_hash = ''x''\<rparr>"

section \<open>Basic facts\<close>

lemmas action_defs = ret_def throw_def and_then_def try_except_def external_def

lemmas manager_defs = create_client_def create_bot_client_def new_telegram_client_def
  store_client_def add_message_handler_def py_not_int_def py_not_str_def Let_def

lemma get_client_absent:
  "map_of (clients w) h = None \<Longrightarrow>
     get_client h w = (Raise (HTTPException 400 ''Session not found''), w)"
  by (simp add: get_client_def throw_def)

lemma get_client_present:
  "map_of (clients w) h = Some c \<Longrightarrow> get_client h w = (Return c, w)"
  by (simp add: get_client_def ret_def)

lemma credentials_guard:
  "py_not_int (app_id w) \<or> py_not_str (app_hash w) \<Longrightarrow>
     create_client rt session_hash w = (Raise (ValueError ''API credentials not set''), w)
   \<and> create_bot_client rt token w = (Raise (ValueError ''API credentials not set''), w)"
  by (auto simp: create_client_def create_bot_client_def throw_def)

lemma delete_as_filter: "AList.delete k al = filter (\<lambda>p. fst p \<noteq> k) al"
  by (induction al) auto

lemma remove_client_absent:
  "map_of (clients w) h = None \<Longrightarrow> remove_client rt h w = (Return (), w)"
  by (simp add: remove_client_def ret_def)

lemma remove_client_present:
  "map_of (clients w) h = Some c \<Longrightarrow>
     remove_client rt h w =
       (case client_disconnect rt c (trace w) of
          Raise e \<Rightarrow> (Raise e, w\<lparr>trace := trace w @ [Disconnect c]\<rparr>)
        | Return _ \<Rightarrow>
            (Return (), w\<lparr>trace := trace w @ [Disconnect c],
                          clients := filter (\<lambda>p. fst p \<noteq> h) (clients w)\<rparr>))"
  by (simp add: remove_client_def action_defs delete_as_filter split: outcome.splits)

lemma map_of_filter_key:
  "map_of (filter (\<lambda>p. fst p \<noteq> h) al) k = (if k = h then None else map_of al k)"
  by (induction al) auto

lemma remove_client_returned:
  assumes "remove_client rt h w = (Return u, w')"
  shows "map_of (clients w') h = None"
proof (cases "map_of (clients w) h")
  case None
  with assms show ?thesis by (simp add: remove_client_absent)
next
  case (Some c)
  with assms show ?thesis
    by (auto simp: remove_client_present map_of_filter_key split: outcome.splits)
qed

lemma disconnect_each_trace:
  "disconnect_each rt cs w = (Return u, w') \<Longrightarrow>
     w' = w\<lparr>trace := trace w @ map Disconnect cs\<rparr>"
proof (induction cs arbitrary: w)
  case Nil
  then show ?case by (simp add: ret_def)
next
  case (Cons c cs)
  let ?w1 = "w\<lparr>trace := trace w @ [Disconnect c]\<rparr>"
  from Cons.prems have step: "disconnect_each rt cs ?w1 = (Return u, w')"
    by (simp add: and_then_def external_def split: outcome.splits)
  from Cons.IH [OF step] show ?case by simp
qed

lemma disconnect_each_completes:
  "\<forall>c tr. client_disconnect rt c tr = Return () \<Longrightarrow>
     disconnect_each rt cs w = (Return (), w\<lparr>trace := trace w @ map Disconnect cs\<rparr>)"
  by (induction cs arbitrary: w) (simp_all add: ret_def and_then_def external_def)

text \<open>When no disconnect raises, \<^verbatim>\<open>disconnect_all\<close> returns.\<close>

lemma disconnect_all_completes:
  "\<forall>c tr. client_disconnect rt c tr = Return () \<Longrightarrow>
     disconnect_all rt w =
       (Return (), w\<lparr>trace := trace w @ map Disconnect (map snd (clients w)), clients := []\<rparr>)"
  by (simp add: disconnect_all_def and_then_def disconnect_each_completes)

subsection \<open>The concrete states\<close>

lemma credentials_set_eq:
  "credentials_set =
     \<lparr>clients = [], app_id = Some 1, app_hash = Some ''x'', allocated = 0, trace = []\<rparr>"
  by (simp add: credentials_set_def set_api_credentials_def initial_def)

lemma create_first:
  "create_client simulated None credentials_set =
     (Return ''1'',
      \<lparr>clients = [(''1'', client0)], app_id = Some 1, app_hash = Some ''x'', allocated = 1,
       trace = [NewStringSession None, NewTelegramClient client0, Connect client0,
                SessionSave client0, OnNewMessage client0 ''/ping'']\<rparr>)"
  by (simp add: credentials_set_eq manager_defs action_defs simulated_def client0_def)

lemma one_session_eq:
  "one_session =
     \<lparr>clients = [(''1'', client0)], app_id = Some 1, app_hash = Some ''x'', allocated = 1,
      trace = [NewStringSession None, NewTelegramClient client0, Connect client0,
               SessionSave client0, OnNewMessage client0 ''/ping'']\<rparr>"
  by (simp add: one_session_def create_first)

lemma two_sessions_eq:
  "two_sessions =
     \<lparr>clients = [(''1'', client0), (''1A'', client1)], app_id = Some 1, app_hash = Some ''x'',
      allocated = 2,
      trace = [NewStringSession None, NewTelegramClient client0, Connect client0,
               SessionSave client0, OnNewMessage client0 ''/ping'',
               NewStringSession None, NewTelegramClient client1, Connect client1,
               SessionSave client1, OnNewMessage client1 ''/ping'']\<rparr>"
  by (simp add: two_sessions_def one_session_eq manager_defs action_defs simulated_def
      client0_def client1_def)

lemma credentials_cleared_eq:
  "credentials_cleared = one_session\<lparr>app_id := Some 0\<rparr>"
  by (simp add: credentials_cleared_def set_api_credentials_def one_session_eq)

lemma str_int_status: "str_int 400 = ''400''" "str_int 401 = ''401''"
  by (simp_all add: str_int_def)

lemma int_of_str_12345: "int_of_str ''12345'' = Some 12345"
  by (simp add: int_of_str_def py_strip_def py_isspace_def digits_def digit_of_def)

lemma int_of_str_somechannel: "int_of_str ''somechannel'' = None"
  by (simp add: int_of_str_def py_strip_def py_isspace_def digits_def digit_of_def)

text \<open>
  The run of the specification's closing example: credentials \<^verbatim>\<open>(1, "x")\<close>, then
  \<^verbatim>\<open>/create_session\<close>; and a sign-in with the right code on the session it opened.
\<close>

lemma example_create_session:
  "set_api_credentials 1 ''x'' initial =
     (Return [(''message'', JStr ''API credentials set successfully'')], credentials_set)
   \<and> create_session simulated ''+15550001111'' credentials_set =
     (Return [(''session_hash'', JStr ''1''), (''phone_code_hash'', JStr ''c0de'')],
      one_session\<lparr>trace := trace one_session @ [SendCodeRequest client0 ''+15550001111'' True]\<rparr>)"
proof -
  have guard: "\<not> (py_not_int (app_id credentials_set) \<or> py_not_str (app_hash credentials_set))"
    by (simp add: credentials_set_eq py_not_int_def py_not_str_def)
  have code: "client_send_code_request simulated c p b tr = Return ''c0de''" for c p b tr
    by (simp add: simulated_def)
  have "set_api_credentials 1 ''x'' initial =
          (Return [(''message'', JStr ''API credentials set successfully'')], credentials_set)"
    by (simp add: set_api_credentials_def initial_def credentials_set_eq)
  moreover
  have "create_session simulated ''+15550001111'' credentials_set =
     (Return [(''session_hash'', JStr ''1''), (''phone_code_hash'', JStr ''c0de'')],
      one_session\<lparr>trace := trace one_session @ [SendCodeRequest client0 ''+15550001111'' True]\<rparr>)"
    using guard
    by (simp add: create_session_def create_first code get_client_def action_defs one_session_eq)
  ultimately show ?thesis by simp
qed

lemma example_verify_otp:
  "fst (verify_otp simulated ''+15550001111'' ''12345'' ''c0de'' ''1'' one_session) =
     Return [(''message'', JStr ''Authenticated as Ada''), (''session_hash'', JStr ''1'')]"
  by (simp add: verify_otp_def get_client_def action_defs one_session_eq simulated_def
      signed_in_def getattr_user_def py_format_def)

subsection \<open>What the handlers do with an unknown session\<close>

text \<open>
  \<^verbatim>\<open>get_client\<close> is called inside the \<^verbatim>\<open>try\<close> of each handler, and
  \<^verbatim>\<open>HTTPException\<close> is an \<^verbatim>\<open>Exception\<close>: the handler's last clause catches the 400 and
  raises a 500 in its place. Nothing is sent to the library.
\<close>

lemma handlers_unknown_session:
  assumes "map_of (clients w) h = None"
  shows "send_message rt h recipient message w =
           (Raise (HTTPException 500 (py_str_exn rt (HTTPException 400 ''Session not found''))), w)"
    and "verify_otp rt phone code phone_code_hash h w =
           (Raise (HTTPException 500 (py_str_exn rt (HTTPException 400 ''Session not found''))), w)"
    and "send_story rt file_path spoiler ttl_seconds h w =
           (Raise (HTTPException 500 (py_str_exn rt (HTTPException 400 ''Session not found''))), w)"
  using assms
  by (simp_all add: send_message_def verify_otp_def send_story_def get_client_def action_defs)

text \<open>
  The two endpoints that create a session, before any credentials are set:
  \<^verbatim>\<open>/create_session\<close> answers 400 from its own guard, \<^verbatim>\<open>/create_bot_session\<close> wraps the
  \<^verbatim>\<open>ValueError\<close> of \<^verbatim>\<open>create_bot_client\<close> into a 500.
\<close>

lemma create_endpoints_without_credentials:
  assumes "py_not_int (app_id w) \<or> py_not_str (app_hash w)"
  shows "create_session rt phone w =
           (Raise (HTTPException 400
              ''API credentials not set. Please call /set_api_credentials first.''), w)"
    and "create_bot_session rt token w =
           (Raise (HTTPException 500 (py_str_exn rt (ValueError ''API credentials not set''))), w)"
  using assms credentials_guard [OF assms, of rt None token]
  by (auto simp: create_session_def create_bot_session_def action_defs)

text \<open>An empty handle is treated as no handle at all, registered or not.\<close>

lemma create_client_empty_handle:
  "create_client rt (Some []) w = create_client rt None w"
  by (simp add: create_client_def py_not_str_def)

text \<open>
  A handle that \<^verbatim>\<open>create_client\<close> has just returned is registered, so asking for it
  again changes nothing.
\<close>

lemma create_client_returned:
  assumes "create_client rt session_hash w = (Return h, w1)"
  shows "map_of (clients w1) h \<noteq> None \<and> app_id w1 = app_id w \<and> app_hash w1 = app_hash w"
  using assms
  by (auto simp: manager_defs action_defs split: if_splits outcome.splits option.splits
      simp: update_conv')

lemma create_client_twice:
  assumes "create_client rt session_hash w = (Return h, w1)" and "h \<noteq> []"
  shows "create_client rt (Some h) w1 = (Return h, w1)"
proof -
  from assms(1) have guard: "\<not> (py_not_int (app_id w) \<or> py_not_str (app_hash w))"
    by (auto simp: create_client_def throw_def)
  from create_client_returned [OF assms(1)] guard assms(2) show ?thesis
    by (auto simp: create_client_def py_not_str_def ret_def)
qed

text \<open>
  The lookup itself: \<^verbatim>\<open>get_client\<close> raises for a handle that is not in the store and
  returns the stored client for one that is, and never changes the state. A handle is
  absent in particular in the initial state and after \<^verbatim>\<open>remove_client\<close> has returned
  for it.
\<close>

lemma get_client_lookup:
  "(map_of (clients w) h = None \<longrightarrow>
      get_client h w = (Raise (HTTPException 400 ''Session not found''), w))
 \<and> (\<forall>client. map_of (clients w) h = Some client \<longrightarrow> get_client h w = (Return client, w))
 \<and> get_client h initial = (Raise (HTTPException 400 ''Session not found''), initial)
 \<and> (\<forall>rt w'. remove_client rt h w = (Return (), w') \<longrightarrow>
      get_client h w' = (Raise (HTTPException 400 ''Session not found''), w'))"
proof -
  have "get_client h initial = (Raise (HTTPException 400 ''Session not found''), initial)"
    by (rule get_client_absent) (simp add: initial_def)
  moreover have "get_client h w' = (Raise (HTTPException 400 ''Session not found''), w')"
    if "remove_client rt h w = (Return (), w')" for rt w'
    by (rule get_client_absent) (rule remove_client_returned [OF that])
  ultimately show ?thesis
    by (auto simp: get_client_absent get_client_present)
qed

section \<open>The claims\<close>

text \<open>
  C1, as amended. With the credentials set (a non-zero \<^verbatim>\<open>app_id\<close>, a non-empty
  \<^verbatim>\<open>app_hash\<close>), \<^verbatim>\<open>create_client(h)\<close> on a non-empty handle \<open>h\<close> that is in the store
  returns \<open>h\<close> and leaves the whole state as it was: the store is unchanged and no
  library call is made, so no connection is opened.
\<close>

theorem create_client_registered:
  assumes "app_id w = Some i" and "i \<noteq> 0"
    and "app_hash w = Some s" and "s \<noteq> []"
    and "h \<noteq> []" and "map_of (clients w) h = Some client"
  shows "create_client rt (Some h) w = (Return h, w)"
  using assms by (simp add: create_client_def py_not_int_def py_not_str_def ret_def)

text \<open>C1, the amended statement at the handle \<^verbatim>\<open>1\<close> of the state with one session.\<close>

theorem create_client_registered_witness:
  "app_id one_session = Some 1 \<and> app_hash one_session = Some ''x''
   \<and> map_of (clients one_session) ''1'' = Some client0
   \<and> create_client simulated (Some ''1'') one_session = (Return ''1'', one_session)"
proof -
  have a: "app_id one_session = Some 1" and b: "app_hash one_session = Some ''x''"
    and c: "map_of (clients one_session) ''1'' = Some client0"
    by (simp_all add: one_session_eq)
  have "create_client simulated (Some ''1'') one_session = (Return ''1'', one_session)"
    by (rule create_client_registered [OF a _ b _ _ c]) simp_all
  with a b c show ?thesis by simp
qed

text \<open>
  C1 as stated fails. The process sets its credentials, creates a session (handle
  \<^verbatim>\<open>1\<close>), then receives \<^verbatim>\<open>/set_api_credentials\<close> with \<^verbatim>\<open>app_id = 0\<close>. The handle is in the
  store, and \<^verbatim>\<open>create_client\<close> on it raises instead of returning it: the credentials
  guard comes first.
\<close>

theorem create_client_registered_counterexample:
  "map_of (clients credentials_cleared) ''1'' = Some client0
   \<and> create_client simulated (Some ''1'') credentials_cleared =
       (Raise (ValueError ''API credentials not set''), credentials_cleared)"
  by (simp add: credentials_cleared_eq one_session_eq create_client_def py_not_int_def throw_def)

text \<open>
  C2. While a credential is unset, \<^verbatim>\<open>create_client\<close> (whatever its argument) and
  \<^verbatim>\<open>create_bot_client\<close> (whatever the token) raise the \<^verbatim>\<open>ValueError\<close>
  "API credentials not set" and leave the state as it was: the store is unchanged and
  the trace has no new call, so no connection was attempted.
\<close>

theorem create_without_credentials:
  assumes "app_id w = None \<or> app_hash w = None"
  shows "create_client rt session_hash w = (Raise (ValueError ''API credentials not set''), w)
       \<and> create_bot_client rt bot_token w = (Raise (ValueError ''API credentials not set''), w)"
proof -
  from assms have "py_not_int (app_id w) \<or> py_not_str (app_hash w)"
    by (auto simp: py_not_int_def py_not_str_def)
  then show ?thesis by (rule credentials_guard)
qed

text \<open>C2 in the initial state of the process, where nothing has been set.\<close>

theorem create_without_credentials_witness:
  "app_id initial = None
   \<and> create_client simulated (Some ''1'') initial =
       (Raise (ValueError ''API credentials not set''), initial)
   \<and> create_bot_client simulated ''42:secret'' initial =
       (Raise (ValueError ''API credentials not set''), initial)"
proof -
  have a: "app_id initial = None" by (simp add: initial_def)
  then have "app_id initial = None \<or> app_hash initial = None" ..
  from create_without_credentials [OF this, of simulated "Some ''1''" "''42:secret''"] a
  show ?thesis by simp
qed

text \<open>
  C3, what the code does. For a handle that is not in the store \<^verbatim>\<open>get_client\<close> raises
  \<^verbatim>\<open>HTTPException(status_code=400, detail="Session not found")\<close>, but no response carries
  that status: \<^verbatim>\<open>send_message\<close>, \<^verbatim>\<open>verify_otp\<close> and \<^verbatim>\<open>send_story\<close> call it inside
  their \<^verbatim>\<open>try\<close>, the clause \<^verbatim>\<open>except Exception\<close> catches the 400, and the handler raises
  an \<^verbatim>\<open>HTTPException\<close> with status 500 whose detail is \<^verbatim>\<open>str\<close> of the 400. The state is
  unchanged and nothing is sent to the library.
\<close>

theorem unknown_session_answered_500:
  assumes "map_of (clients w) h = None"
  shows "get_client h w = (Raise (HTTPException 400 ''Session not found''), w)
       \<and> send_message rt h recipient message w =
           (Raise (HTTPException 500 (py_str_exn rt (HTTPException 400 ''Session not found''))), w)
       \<and> verify_otp rt phone code phone_code_hash h w =
           (Raise (HTTPException 500 (py_str_exn rt (HTTPException 400 ''Session not found''))), w)
       \<and> send_story rt file_path spoiler ttl_seconds h w =
           (Raise (HTTPException 500 (py_str_exn rt (HTTPException 400 ''Session not found''))), w)
       \<and> http_status (fst (send_message rt h recipient message w)) = 500
       \<and> http_status (fst (verify_otp rt phone code phone_code_hash h w)) = 500
       \<and> http_status (fst (send_story rt file_path spoiler ttl_seconds h w)) = 500"
  using get_client_absent [OF assms] handlers_unknown_session [OF assms, of rt]
  by (simp add: http_status_def)

text \<open>
  C3 on the state with one session, for the handle \<^verbatim>\<open>nope\<close>, which was never issued:
  \<^verbatim>\<open>/send_message\<close> is answered with status 500 and the detail
  \<^verbatim>\<open>400: Session not found\<close>.
\<close>

theorem unknown_session_answered_500_witness:
  "map_of (clients one_session) ''nope'' = None
   \<and> get_client ''nope'' one_session =
       (Raise (HTTPException 400 ''Session not found''), one_session)
   \<and> send_message simulated ''nope'' ''12345'' ''hello'' one_session =
       (Raise (HTTPException 500 ''400: Session not found''), one_session)
   \<and> http_status (fst (send_message simulated ''nope'' ''12345'' ''hello'' one_session)) = 500"
proof -
  have a: "map_of (clients one_session) ''nope'' = None"
    by (simp add: one_session_eq)
  have b: "py_str_exn simulated (HTTPException 400 ''Session not found'') =
             ''400: Session not found''"
    by (simp add: simulated_def exn_text_def str_int_status)
  from unknown_session_answered_500 [OF a, of simulated "''12345''" "''hello''"] a b
  show ?thesis by (simp add: http_status_def)
qed

text \<open>
  C4. When \<^verbatim>\<open>disconnect_all\<close> returns, the store is empty, so \<^verbatim>\<open>get_client\<close> fails for
  every handle, those valid before the call included; and the calls it made are one
  \<^verbatim>\<open>disconnect()\<close> on each stored client, in the store's order.
\<close>

theorem disconnect_all_empties:
  assumes "disconnect_all rt w = (Return u, w')"
  shows "clients w' = []
       \<and> (\<forall>h. get_client h w' = (Raise (HTTPException 400 ''Session not found''), w'))
       \<and> trace w' = trace w @ map (\<lambda>p. Disconnect (snd p)) (clients w)
       \<and> (\<forall>p \<in> set (clients w). Disconnect (snd p) \<in> set (trace w'))"
proof -
  obtain w1 where loop: "disconnect_each rt (map snd (clients w)) w = (Return (), w1)"
    and w': "w' = w1\<lparr>clients := []\<rparr>"
    using assms
    by (auto simp: disconnect_all_def and_then_def split: outcome.splits prod.splits)
  from disconnect_each_trace [OF loop]
  have "w1 = w\<lparr>trace := trace w @ map Disconnect (map snd (clients w))\<rparr>" .
  with w' show ?thesis
    by (simp add: get_client_def throw_def comp_def)
qed

text \<open>
  C4 on the state with two sessions: the call returns, both clients are disconnected
  and neither handle is found afterwards.
\<close>

theorem disconnect_all_empties_witness:
  "fst (disconnect_all simulated two_sessions) = Return ()
   \<and> clients (snd (disconnect_all simulated two_sessions)) = []
   \<and> fst (get_client ''1'' (snd (disconnect_all simulated two_sessions))) =
       Raise (HTTPException 400 ''Session not found'')
   \<and> fst (get_client ''1A'' (snd (disconnect_all simulated two_sessions))) =
       Raise (HTTPException 400 ''Session not found'')
   \<and> trace (snd (disconnect_all simulated two_sessions)) =
       trace two_sessions @ [Disconnect client0, Disconnect client1]"
proof -
  obtain w' where run: "disconnect_all simulated two_sessions = (Return (), w')"
    by (simp add: disconnect_all_completes simulated_def)
  from disconnect_all_empties [OF run] have "clients w' = []"
    and "get_client ''1'' w' = (Raise (HTTPException 400 ''Session not found''), w')"
    and "get_client ''1A'' w' = (Raise (HTTPException 400 ''Session not found''), w')"
    and "trace w' = trace two_sessions @ map (\<lambda>p. Disconnect (snd p)) (clients two_sessions)"
    by blast+
  with run show ?thesis by (simp add: two_sessions_eq)
qed

text \<open>
  C5. For a handle that is not in the store, \<^verbatim>\<open>remove_client\<close> returns and leaves the
  whole state as it was. For a handle in the store whose client disconnects, it
  returns, the one new call is that \<^verbatim>\<open>disconnect()\<close>, and the store is the old one
  without the entry of that handle: the other entries keep their values and their
  order.
\<close>

theorem remove_client_effect:
  "(map_of (clients w) h = None \<longrightarrow> remove_client rt h w = (Return (), w))
 \<and> (\<forall>client. map_of (clients w) h = Some client
        \<and> client_disconnect rt client (trace w) = Return () \<longrightarrow>
      remove_client rt h w =
        (Return (), w\<lparr>trace := trace w @ [Disconnect client],
                      clients := filter (\<lambda>p. fst p \<noteq> h) (clients w)\<rparr>)
      \<and> map_of (clients (snd (remove_client rt h w))) h = None
      \<and> (\<forall>k. k \<noteq> h \<longrightarrow>
            map_of (clients (snd (remove_client rt h w))) k = map_of (clients w) k))"
  by (auto simp: remove_client_absent remove_client_present map_of_filter_key)

text \<open>
  C5 on the state with two sessions: removing \<^verbatim>\<open>1\<close> leaves exactly the entry of
  \<^verbatim>\<open>1A\<close>, and removing the unknown \<^verbatim>\<open>nope\<close> changes nothing.
\<close>

theorem remove_client_effect_witness:
  "map_of (clients two_sessions) ''nope'' = None
   \<and> remove_client simulated ''nope'' two_sessions = (Return (), two_sessions)
   \<and> map_of (clients two_sessions) ''1'' = Some client0
   \<and> client_disconnect simulated client0 (trace two_sessions) = Return ()
   \<and> fst (remove_client simulated ''1'' two_sessions) = Return ()
   \<and> clients (snd (remove_client simulated ''1'' two_sessions)) = [(''1A'', client1)]
   \<and> trace (snd (remove_client simulated ''1'' two_sessions)) =
       trace two_sessions @ [Disconnect client0]"
proof -
  have a: "map_of (clients two_sessions) ''nope'' = None"
    and b: "map_of (clients two_sessions) ''1'' = Some client0"
    and c: "client_disconnect simulated client0 (trace two_sessions) = Return ()"
    by (simp_all add: two_sessions_eq simulated_def)
  from remove_client_effect [of two_sessions "''nope''" simulated] a
  have "remove_client simulated ''nope'' two_sessions = (Return (), two_sessions)"
    by blast
  moreover from remove_client_effect [of two_sessions "''1''" simulated] b c
  have "remove_client simulated ''1'' two_sessions =
          (Return (), two_sessions\<lparr>trace := trace two_sessions @ [Disconnect client0],
             clients := filter (\<lambda>p. fst p \<noteq> ''1'') (clients two_sessions)\<rparr>)"
    by blast
  ultimately show ?thesis using a b c by (simp add: two_sessions_eq)
qed

text \<open>
  C6. Take any \<^verbatim>\<open>send_message\<close> request. If the session is unknown the handler calls
  nothing. Otherwise, if \<^verbatim>\<open>int(recipient)\<close> gives \<open>n\<close>, the handler's only library call
  is \<^verbatim>\<open>send_message\<close> to \<^verbatim>\<open>InputPeerUser(n, 0)\<close>: there is no lookup. If
  \<^verbatim>\<open>int(recipient)\<close> raises, its first call is \<^verbatim>\<open>get_entity(recipient)\<close>; the message
  then goes to the entity that call returns, and is not sent when that call raises.
\<close>

theorem send_message_recipient:
  "(map_of (clients w) h = None \<longrightarrow> trace (snd (send_message rt h r m w)) = trace w)
 \<and> (\<forall>client n. map_of (clients w) h = Some client \<and> py_int rt r = Some n \<longrightarrow>
      trace (snd (send_message rt h r m w)) =
        trace w @ [SendMessage client (InputPeerUser n 0) m])
 \<and> (\<forall>client. map_of (clients w) h = Some client \<and> py_int rt r = None \<longrightarrow>
      trace (snd (send_message rt h r m w)) =
        (case client_get_entity rt client r (trace w) of
           Return e \<Rightarrow> trace w @ [GetEntity client r, SendMessage client e m]
         | Raise _ \<Rightarrow> trace w @ [GetEntity client r]))"
  by (auto simp: send_message_def resolve_recipient_def get_client_def action_defs
      split: outcome.splits exn.splits)

text \<open>
  C6 on the state with one session: the recipient \<^verbatim>\<open>12345\<close> is addressed as user
  12345 with no lookup, the recipient \<^verbatim>\<open>somechannel\<close> is looked up first.
\<close>

theorem send_message_recipient_witness:
  "map_of (clients one_session) ''1'' = Some client0
   \<and> py_int simulated ''12345'' = Some 12345
   \<and> trace (snd (send_message simulated ''1'' ''12345'' ''hello'' one_session)) =
       trace one_session @ [SendMessage client0 (InputPeerUser 12345 0) ''hello'']
   \<and> py_int simulated ''somechannel'' = None
   \<and> trace (snd (send_message simulated ''1'' ''somechannel'' ''hello'' one_session)) =
       trace one_session @ [GetEntity client0 ''somechannel'',
                            SendMessage client0 (Resolved 7) ''hello'']"
proof -
  have a: "map_of (clients one_session) ''1'' = Some client0"
    by (simp add: one_session_eq)
  have b: "py_int simulated ''12345'' = Some 12345"
    and c: "py_int simulated ''somechannel'' = None"
    by (simp_all add: simulated_def int_of_str_12345 int_of_str_somechannel)
  have d: "client_get_entity simulated client0 ''somechannel'' (trace one_session) =
             Return (Resolved 7)"
    by (simp add: simulated_def)
  from send_message_recipient [of one_session "''1''" simulated "''12345''" "''hello''"] a b
  have "trace (snd (send_message simulated ''1'' ''12345'' ''hello'' one_session)) =
          trace one_session @ [SendMessage client0 (InputPeerUser 12345 0) ''hello'']"
    by blast
  moreover
  from send_message_recipient [of one_session "''1''" simulated "''somechannel''" "''hello''"] a c
  have "trace (snd (send_message simulated ''1'' ''somechannel'' ''hello'' one_session)) =
          (case client_get_entity simulated client0 ''somechannel'' (trace one_session) of
             Return e \<Rightarrow> trace one_session @ [GetEntity client0 ''somechannel'',
                                             SendMessage client0 e ''hello'']
           | Raise _ \<Rightarrow> trace one_session @ [GetEntity client0 ''somechannel''])"
    by blast
  ultimately show ?thesis using a b c d by simp
qed

text \<open>
  C7. In \<^verbatim>\<open>verify_otp\<close> on a registered session, when \<^verbatim>\<open>sign_in\<close> raises
  \<^verbatim>\<open>SessionPasswordNeededError\<close> the handler returns a body (status 200) holding the
  advisory message and the session hash it was given. The sign-in is its only call.
\<close>

theorem verify_otp_two_factor:
  assumes "map_of (clients w) h = Some client"
    and "client_sign_in rt client phone code phone_code_hash (trace w) =
           Raise SessionPasswordNeededError"
  shows "verify_otp rt phone code phone_code_hash h w =
           (Return [(''message'',
                     JStr ''Two-step verification is enabled. Please provide the password.''),
                    (''session_hash'', JStr h)],
            w\<lparr>trace := trace w @ [SignIn client phone code phone_code_hash]\<rparr>)
       \<and> http_status (fst (verify_otp rt phone code phone_code_hash h w)) = 200"
  using assms by (simp add: verify_otp_def get_client_def action_defs http_status_def)

text \<open>C7 on the state with one session, for the number that has a password set.\<close>

theorem verify_otp_two_factor_witness:
  "map_of (clients one_session) ''1'' = Some client0
   \<and> client_sign_in simulated client0 ''+15550002222'' ''12345'' ''c0de'' (trace one_session) =
       Raise SessionPasswordNeededError
   \<and> fst (verify_otp simulated ''+15550002222'' ''12345'' ''c0de'' ''1'' one_session) =
       Return [(''message'',
                JStr ''Two-step verification is enabled. Please provide the password.''),
               (''session_hash'', JStr ''1'')]
   \<and> http_status (fst (verify_otp simulated ''+15550002222'' ''12345'' ''c0de'' ''1''
         one_session)) = 200"
proof -
  have a: "map_of (clients one_session) ''1'' = Some client0"
    by (simp add: one_session_eq)
  have b: "client_sign_in simulated client0 ''+15550002222'' ''12345'' ''c0de''
             (trace one_session) = Raise SessionPasswordNeededError"
    by (simp add: simulated_def)
  from verify_otp_two_factor [OF a b] a b show ?thesis by (simp add: http_status_def)
qed

text \<open>
  C8. In \<^verbatim>\<open>verify_otp\<close> on a registered session, when \<^verbatim>\<open>sign_in\<close> raises
  \<^verbatim>\<open>PhoneCodeInvalidError\<close> the handler raises
  \<^verbatim>\<open>HTTPException(status_code=401, detail="Invalid code provided.")\<close>.
\<close>

theorem verify_otp_invalid_code:
  assumes "map_of (clients w) h = Some client"
    and "client_sign_in rt client phone code phone_code_hash (trace w) =
           Raise PhoneCodeInvalidError"
  shows "verify_otp rt phone code phone_code_hash h w =
           (Raise (HTTPException 401 ''Invalid code provided.''),
            w\<lparr>trace := trace w @ [SignIn client phone code phone_code_hash]\<rparr>)
       \<and> http_status (fst (verify_otp rt phone code phone_code_hash h w)) = 401"
  using assms by (simp add: verify_otp_def get_client_def action_defs http_status_def)

text \<open>C8 on the state with one session, for a wrong code.\<close>

theorem verify_otp_invalid_code_witness:
  "map_of (clients one_session) ''1'' = Some client0
   \<and> client_sign_in simulated client0 ''+15550001111'' ''00000'' ''c0de'' (trace one_session) =
       Raise PhoneCodeInvalidError
   \<and> fst (verify_otp simulated ''+15550001111'' ''00000'' ''c0de'' ''1'' one_session) =
       Raise (HTTPException 401 ''Invalid code provided.'')
   \<and> http_status (fst (verify_otp simulated ''+15550001111'' ''00000'' ''c0de'' ''1''
         one_session)) = 401"
proof -
  have a: "map_of (clients one_session) ''1'' = Some client0"
    by (simp add: one_session_eq)
  have b: "client_sign_in simulated client0 ''+15550001111'' ''00000'' ''c0de''
             (trace one_session) = Raise PhoneCodeInvalidError"
    by (simp add: simulated_def)
  from verify_otp_invalid_code [OF a b] a b show ?thesis by (simp add: http_status_def)
qed

text \<open>
  C9, what the code does. In \<^verbatim>\<open>send_story\<close> on a registered session whose client
  reports that it is not authorized, the 401 raised inside the \<^verbatim>\<open>try\<close> is caught by
  \<^verbatim>\<open>except Exception\<close>: the handler raises an \<^verbatim>\<open>HTTPException\<close> with status 500 whose
  detail is \<^verbatim>\<open>str\<close> of the 401. Its only call is \<^verbatim>\<open>is_user_authorized()\<close>: nothing is
  uploaded or posted.
\<close>

theorem send_story_unauthorized:
  assumes "map_of (clients w) h = Some client"
    and "client_is_user_authorized rt client (trace w) = Return False"
  shows "send_story rt file_path spoiler ttl_seconds h w =
           (Raise (HTTPException 500
              (py_str_exn rt (HTTPException 401 ''Unauthorized. Please authenticate first.''))),
            w\<lparr>trace := trace w @ [IsUserAuthorized client]\<rparr>)
       \<and> http_status (fst (send_story rt file_path spoiler ttl_seconds h w)) = 500"
  using assms by (simp add: send_story_def get_client_def action_defs http_status_def)

text \<open>
  C9 on the state with one session, which has not signed in: the request is answered
  with status 500 and the detail \<^verbatim>\<open>401: Unauthorized. Please authenticate first.\<close>
\<close>

theorem send_story_unauthorized_witness:
  "map_of (clients one_session) ''1'' = Some client0
   \<and> client_is_user_authorized simulated client0 (trace one_session) = Return False
   \<and> send_story simulated ''uploads/a.jpg'' True 42 ''1'' one_session =
       (Raise (HTTPException 500 ''401: Unauthorized. Please authenticate first.''),
        one_session\<lparr>trace := trace one_session @ [IsUserAuthorized client0]\<rparr>)
   \<and> http_status (fst (send_story simulated ''uploads/a.jpg'' True 42 ''1'' one_session)) = 500"
proof -
  have a: "map_of (clients one_session) ''1'' = Some client0"
    by (simp add: one_session_eq)
  have b: "client_is_user_authorized simulated client0 (trace one_session) = Return False"
    by (simp add: simulated_def signed_in_def one_session_eq)
  have c: "py_str_exn simulated (HTTPException 401 ''Unauthorized. Please authenticate first.'')
             = ''401: Unauthorized. Please authenticate first.''"
    by (simp add: simulated_def exn_text_def str_int_status)
  from send_story_unauthorized [OF a b, of "''uploads/a.jpg''" True 42] a b c
  show ?thesis by (simp add: http_status_def)
qed

text \<open>
  C10. After \<^verbatim>\<open>/set_api_credentials\<close> with \<^verbatim>\<open>app_id = 0\<close> or with an empty \<^verbatim>\<open>app_hash\<close>,
  \<^verbatim>\<open>create_client\<close> and \<^verbatim>\<open>create_bot_client\<close> raise the \<^verbatim>\<open>ValueError\<close>
  "API credentials not set" and change nothing, which is what they do in the initial
  state, where no credentials were ever set.
\<close>

theorem create_with_falsy_credentials:
  assumes "i = 0 \<or> s = []"
  shows "create_client rt session_hash (snd (set_api_credentials i s w)) =
           (Raise (ValueError ''API credentials not set''), snd (set_api_credentials i s w))
       \<and> create_bot_client rt bot_token (snd (set_api_credentials i s w)) =
           (Raise (ValueError ''API credentials not set''), snd (set_api_credentials i s w))
       \<and> fst (create_client rt session_hash (snd (set_api_credentials i s w))) =
           fst (create_client rt session_hash initial)
       \<and> fst (create_bot_client rt bot_token (snd (set_api_credentials i s w))) =
           fst (create_bot_client rt bot_token initial)"
proof -
  from assms
  have "py_not_int (app_id (snd (set_api_credentials i s w)))
          \<or> py_not_str (app_hash (snd (set_api_credentials i s w)))"
    by (auto simp: set_api_credentials_def py_not_int_def py_not_str_def)
  from credentials_guard [OF this]
  have set: "create_client rt session_hash (snd (set_api_credentials i s w)) =
               (Raise (ValueError ''API credentials not set''), snd (set_api_credentials i s w))
           \<and> create_bot_client rt bot_token (snd (set_api_credentials i s w)) =
               (Raise (ValueError ''API credentials not set''), snd (set_api_credentials i s w))" .
  have "py_not_int (app_id initial) \<or> py_not_str (app_hash initial)"
    by (simp add: initial_def py_not_int_def)
  from credentials_guard [OF this]
  have unset: "create_client rt session_hash initial =
                 (Raise (ValueError ''API credentials not set''), initial)
             \<and> create_bot_client rt bot_token initial =
                 (Raise (ValueError ''API credentials not set''), initial)" .
  from set unset show ?thesis by simp
qed

text \<open>
  C10 for \<^verbatim>\<open>app_id = 0\<close> with a non-empty hash, and for \<^verbatim>\<open>app_id = 7\<close> with an empty
  hash, set while one session is registered.
\<close>

theorem create_with_falsy_credentials_witness:
  "create_client simulated None (snd (set_api_credentials 0 ''x'' one_session)) =
     (Raise (ValueError ''API credentials not set''), snd (set_api_credentials 0 ''x'' one_session))
   \<and> create_bot_client simulated ''42:secret'' (snd (set_api_credentials 7 [] one_session)) =
     (Raise (ValueError ''API credentials not set''), snd (set_api_credentials 7 [] one_session))"
proof -
  have "(0::int) = 0 \<or> ''x'' = []" by simp
  from create_with_falsy_credentials [OF this, of simulated None one_session]
  have first: "create_client simulated None (snd (set_api_credentials 0 ''x'' one_session)) =
     (Raise (ValueError ''API credentials not set''), snd (set_api_credentials 0 ''x'' one_session))"
    by blast
  have "(7::int) = 0 \<or> ([]::string) = []" by simp
  from create_with_falsy_credentials [OF this, of simulated _ one_session "''42:secret''"]
  have "create_bot_client simulated ''42:secret'' (snd (set_api_credentials 7 [] one_session)) =
     (Raise (ValueError ''API credentials not set''), snd (set_api_credentials 7 [] one_session))"
    by blast
  with first show ?thesis by simp
qed

end
